theory Spec2Isabelle
  imports Main "HOL-Library.Word"
begin

section \<open>Host values: bytes, strings and errors\<close>

text \<open>
  A \<^verbatim>\<open>Uint8Array\<close> is a list of bytes. A JavaScript string is a sequence of 16-bit
  code units, and its \<^verbatim>\<open>length\<close> counts code units. A JavaScript number that holds an
  address or a length is an \<open>int\<close>. A thrown exception is the left summand of the result.
\<close>

type_synonym byte = "8 word"
type_synonym code_unit = "16 word"
type_synonym jsstring = "code_unit list"

definition js :: "string \<Rightarrow> jsstring" where
  "js s = map (\<lambda>c. of_nat (of_char c)) s"

datatype js_error = Error jsstring | RangeError

section \<open>Hex conversion (\<^verbatim>\<open>toHex\<close>, \<^verbatim>\<open>fromHex\<close>)\<close>

text \<open>
  \<^verbatim>\<open>b.toString(16)\<close> writes a non-negative integer in radix 16 with the digits
  \<^verbatim>\<open>0-9a-f\<close> and no leading zero; \<^verbatim>\<open>padStart(2, '0')\<close> pads on the left.
\<close>

definition hex_digit :: "nat \<Rightarrow> code_unit" where
  "hex_digit d = (if d < 10 then of_nat (48 + d) else of_nat (87 + d))"

fun Number_toString16 :: "nat \<Rightarrow> jsstring" where
  "Number_toString16 n =
     (if n < 16 then [hex_digit n]
      else Number_toString16 (n div 16) @ [hex_digit (n mod 16)])"

declare Number_toString16.simps [simp del]

definition padStart :: "nat \<Rightarrow> code_unit \<Rightarrow> jsstring \<Rightarrow> jsstring" where
  "padStart targetLength c s = replicate (targetLength - length s) c @ s"

definition toHex :: "byte list \<Rightarrow> jsstring" where
  "toHex data = concat (map (\<lambda>b. padStart 2 0x30 (Number_toString16 (unat b))) data)"

text \<open>
  \<^verbatim>\<open>parseInt(string, 16)\<close>: leading white space is skipped, then an optional sign, then an
  optional \<^verbatim>\<open>0x\<close> or \<^verbatim>\<open>0X\<close>; the longest run of hexadecimal digits that follows is the
  number, and \<open>None\<close> stands for \<^verbatim>\<open>NaN\<close> when that run is empty. Storing a number into
  a \<^verbatim>\<open>Uint8Array\<close> element reduces it modulo 256 and stores 0 for \<^verbatim>\<open>NaN\<close>.
\<close>

definition substring :: "jsstring \<Rightarrow> nat \<Rightarrow> nat \<Rightarrow> jsstring" where
  "substring s start end =
     (let a = min start (length s); b = min end (length s);
          from = min a b; to = max a b
      in take (to - from) (drop from s))"

definition is_white_space :: "code_unit \<Rightarrow> bool" where
  "is_white_space c =
     (c = 0x0009 \<or> c = 0x000B \<or> c = 0x000C \<or> c = 0x0020 \<or> c = 0x00A0 \<or> c = 0xFEFF \<or>
      c = 0x1680 \<or> (0x2000 \<le> c \<and> c \<le> 0x200A) \<or> c = 0x202F \<or> c = 0x205F \<or> c = 0x3000 \<or>
      c = 0x000A \<or> c = 0x000D \<or> c = 0x2028 \<or> c = 0x2029)"

definition is_hex_digit :: "code_unit \<Rightarrow> bool" where
  "is_hex_digit c =
     ((0x30 \<le> c \<and> c \<le> 0x39) \<or> (0x61 \<le> c \<and> c \<le> 0x66) \<or> (0x41 \<le> c \<and> c \<le> 0x46))"

definition digit_value :: "code_unit \<Rightarrow> int" where
  "digit_value c =
     (if 0x30 \<le> c \<and> c \<le> 0x39 then uint c - 0x30
      else if 0x61 \<le> c \<and> c \<le> 0x66 then uint c - 0x61 + 10
      else uint c - 0x41 + 10)"

definition strip_sign :: "jsstring \<Rightarrow> jsstring" where
  "strip_sign s = (case s of [] \<Rightarrow> [] | c # cs \<Rightarrow> if c = 0x2B \<or> c = 0x2D then cs else s)"

definition strip_prefix :: "jsstring \<Rightarrow> jsstring" where
  "strip_prefix s =
     (case s of
        a # b # cs \<Rightarrow> if a = 0x30 \<and> (b = 0x78 \<or> b = 0x58) then cs else s
      | _ \<Rightarrow> s)"

definition parseInt16 :: "jsstring \<Rightarrow> int option" where
  "parseInt16 string =
     (let S = dropWhile is_white_space string;
          sign = (if S \<noteq> [] \<and> hd S = 0x2D then - 1 else 1);
          S1 = strip_sign S;
          S2 = strip_prefix S1;
          Z = takeWhile is_hex_digit S2
      in if Z = [] then None
         else Some (sign * foldl (\<lambda>acc c. 16 * acc + digit_value c) 0 Z))"

definition ToUint8 :: "int option \<Rightarrow> byte" where
  "ToUint8 v = (case v of None \<Rightarrow> 0 | Some n \<Rightarrow> word_of_int n)"

text \<open>
  The loop of \<^verbatim>\<open>fromHex\<close>: \<^verbatim>\<open>for (let i = 0; i < hex.length; i += 2)\<close>, storing at
  index \<^verbatim>\<open>i / 2\<close>. A store outside the array is ignored, by JavaScript and by list update.
\<close>

function fromHex_loop :: "jsstring \<Rightarrow> nat \<Rightarrow> byte list \<Rightarrow> byte list" where
  "fromHex_loop hex i bytes =
     (if i < length hex
      then fromHex_loop hex (i + 2)
             (bytes[i div 2 := ToUint8 (parseInt16 (substring hex i (i + 2)))])
      else bytes)"
  by pat_completeness auto
termination
  by (relation "measure (\<lambda>(hex, i, bytes). length hex - i)") auto

declare fromHex_loop.simps [simp del]

definition fromHex :: "jsstring \<Rightarrow> js_error + byte list" where
  "fromHex hex =
     (if length hex mod 2 \<noteq> 0
      then Inl (Error (js ''Hex string must have an even number of characters''))
      else Inr (fromHex_loop hex 0 (replicate (length hex div 2) 0)))"

section \<open>Text encoding and typed arrays\<close>

text \<open>
  \<^verbatim>\<open>new TextEncoder().encode(s)\<close> is the UTF-8 encoding of the string: a surrogate pair is
  one code point of four bytes, a lone surrogate is replaced by U+FFFD.
\<close>

definition utf8 :: "nat \<Rightarrow> byte list" where
  "utf8 cp =
     (if cp < 0x80 then [of_nat cp]
      else if cp < 0x800 then [of_nat (0xC0 + cp div 64), of_nat (0x80 + cp mod 64)]
      else if cp < 0x10000 then
        [of_nat (0xE0 + cp div 4096), of_nat (0x80 + cp div 64 mod 64), of_nat (0x80 + cp mod 64)]
      else
        [of_nat (0xF0 + cp div 262144), of_nat (0x80 + cp div 4096 mod 64),
         of_nat (0x80 + cp div 64 mod 64), of_nat (0x80 + cp mod 64)])"

definition is_surrogate :: "code_unit \<Rightarrow> bool" where
  "is_surrogate u = (0xD800 \<le> u \<and> u \<le> 0xDFFF)"

definition scalar_value :: "code_unit \<Rightarrow> nat" where
  "scalar_value u = (if is_surrogate u then 0xFFFD else unat u)"

fun TextEncoder_encode :: "jsstring \<Rightarrow> byte list" where
  "TextEncoder_encode [] = []"
| "TextEncoder_encode [u] = utf8 (scalar_value u)"
| "TextEncoder_encode (u # l # rest) =
     (if 0xD800 \<le> u \<and> u \<le> 0xDBFF \<and> 0xDC00 \<le> l \<and> l \<le> 0xDFFF
      then utf8 (0x10000 + (unat u - 0xD800) * 1024 + (unat l - 0xDC00)) @ TextEncoder_encode rest
      else utf8 (scalar_value u) @ TextEncoder_encode (l # rest))"

text \<open>The argument type \<^verbatim>\<open>Uint8Array | string\<close> of the digests and of \<^verbatim>\<open>base64Encode\<close>.\<close>

datatype data = Bytes "byte list" | Text jsstring

definition input_bytes :: "data \<Rightarrow> byte list" where
  "input_bytes d = (case d of Text s \<Rightarrow> TextEncoder_encode s | Bytes b \<Rightarrow> b)"

text \<open>
  Typed arrays throw \<^verbatim>\<open>RangeError\<close> on a negative length, on a view that leaves its
  buffer and on a \<^verbatim>\<open>set\<close> that does not fit its target.
\<close>

definition new_Uint8Array :: "int \<Rightarrow> js_error + byte list" where
  "new_Uint8Array n = (if n < 0 then Inl RangeError else Inr (replicate (nat n) 0))"

definition Uint8Array_view :: "byte list \<Rightarrow> int \<Rightarrow> int \<Rightarrow> js_error + byte list" where
  "Uint8Array_view buffer byteOffset len =
     (if byteOffset < 0 \<or> len < 0 \<or> byteOffset + len > int (length buffer) then Inl RangeError
      else Inr (take (nat len) (drop (nat byteOffset) buffer)))"

definition TypedArray_set :: "byte list \<Rightarrow> byte list \<Rightarrow> int \<Rightarrow> js_error + byte list" where
  "TypedArray_set target source offset =
     (if offset < 0 \<or> int (length source) + offset > int (length target) then Inl RangeError
      else Inr (take (nat offset) target @ source @ drop (nat offset + length source) target))"

text \<open>
  The two lines every operation ends with:
  \<^verbatim>\<open>const output = new Uint8Array(len);\<close>
  \<^verbatim>\<open>output.set(new Uint8Array(this.instance.HEAPU8.buffer, ptr, len));\<close>
\<close>

definition read_bytes :: "byte list \<Rightarrow> int \<Rightarrow> int \<Rightarrow> js_error + byte list" where
  "read_bytes heap ptr len =
     (case new_Uint8Array len of
        Inl e \<Rightarrow> Inl e
      | Inr output \<Rightarrow>
          (case Uint8Array_view heap ptr len of
             Inl e \<Rightarrow> Inl e
           | Inr view \<Rightarrow> TypedArray_set output view 0))"

section \<open>The foreign module\<close>

text \<open>
  The state of the loaded module is its linear memory, which the host reads and writes
  through \<^verbatim>\<open>HEAPU8\<close>, and whatever else the module keeps (allocator, error queue), of a
  type \<open>'f\<close> the binding never looks into. The interface \<^verbatim>\<open>OpenSSLWasmInstance\<close> is a
  record of functions on that state; \<^verbatim>\<open>cwrap(name, returnType, argTypes)\<close> is one
  field for each return type, applied to the name and to the list of arguments. A number
  that crosses the boundary is an \<open>int\<close>, an address too. Every call into the module
  returns: a trap inside the module is outside this model, and so is a failure to load it.
\<close>

record 'f world =
  HEAPU8 :: "byte list"
  foreign :: 'f

record 'f OpenSSLWasmInstance =
  cwrap_number :: "string \<Rightarrow> int list \<Rightarrow> 'f world \<Rightarrow> int \<times> 'f world"
  cwrap_string :: "string \<Rightarrow> int list \<Rightarrow> 'f world \<Rightarrow> jsstring \<times> 'f world"
  cwrap_void :: "string \<Rightarrow> int list \<Rightarrow> 'f world \<Rightarrow> 'f world"
  UTF8ToString :: "int \<Rightarrow> 'f world \<Rightarrow> jsstring"
  stringToUTF8 :: "jsstring \<Rightarrow> int \<Rightarrow> int \<Rightarrow> 'f world \<Rightarrow> 'f world"
  getValue_i32 :: "int \<Rightarrow> 'f world \<Rightarrow> int"
  malloc :: "int \<Rightarrow> 'f world \<Rightarrow> int \<times> 'f world"
  free :: "int \<Rightarrow> 'f world \<Rightarrow> 'f world"

text \<open>
  Every call the binding makes on the instance is recorded, in order.
  \<open>Malloc n p\<close> is \<^verbatim>\<open>_malloc(n)\<close> returning \<open>p\<close>.
\<close>

datatype event =
    Malloc int int
  | Free int
  | Call string "int list"
  | StringToUTF8 jsstring int int
  | UTF8ToString_call int
  | GetValue int

type_synonym 'f st = "'f world \<times> event list"

definition do_malloc :: "'f OpenSSLWasmInstance \<Rightarrow> int \<Rightarrow> 'f st \<Rightarrow> int \<times> 'f st" where
  "do_malloc inst n s =
     (let (ptr, w) = malloc inst n (fst s) in (ptr, (w, snd s @ [Malloc n ptr])))"

definition do_free :: "'f OpenSSLWasmInstance \<Rightarrow> int \<Rightarrow> 'f st \<Rightarrow> 'f st" where
  "do_free inst ptr s = (free inst ptr (fst s), snd s @ [Free ptr])"

definition call_number ::
  "'f OpenSSLWasmInstance \<Rightarrow> string \<Rightarrow> int list \<Rightarrow> 'f st \<Rightarrow> int \<times> 'f st" where
  "call_number inst name args s =
     (let (r, w) = cwrap_number inst name args (fst s) in (r, (w, snd s @ [Call name args])))"

definition call_string ::
  "'f OpenSSLWasmInstance \<Rightarrow> string \<Rightarrow> int list \<Rightarrow> 'f st \<Rightarrow> jsstring \<times> 'f st" where
  "call_string inst name args s =
     (let (r, w) = cwrap_string inst name args (fst s) in (r, (w, snd s @ [Call name args])))"

definition call_void :: "'f OpenSSLWasmInstance \<Rightarrow> string \<Rightarrow> int list \<Rightarrow> 'f st \<Rightarrow> 'f st" where
  "call_void inst name args s = (cwrap_void inst name args (fst s), snd s @ [Call name args])"

definition do_stringToUTF8 ::
  "'f OpenSSLWasmInstance \<Rightarrow> jsstring \<Rightarrow> int \<Rightarrow> int \<Rightarrow> 'f st \<Rightarrow> 'f st" where
  "do_stringToUTF8 inst str outPtr maxBytesToWrite s =
     (stringToUTF8 inst str outPtr maxBytesToWrite (fst s),
      snd s @ [StringToUTF8 str outPtr maxBytesToWrite])"

definition do_UTF8ToString :: "'f OpenSSLWasmInstance \<Rightarrow> int \<Rightarrow> 'f st \<Rightarrow> jsstring \<times> 'f st" where
  "do_UTF8ToString inst ptr s = (UTF8ToString inst ptr (fst s), (fst s, snd s @ [UTF8ToString_call ptr]))"

definition do_getValue :: "'f OpenSSLWasmInstance \<Rightarrow> int \<Rightarrow> 'f st \<Rightarrow> int \<times> 'f st" where
  "do_getValue inst ptr s = (getValue_i32 inst ptr (fst s), (fst s, snd s @ [GetValue ptr]))"

text \<open>\<^verbatim>\<open>this.instance.HEAPU8.set(source, offset)\<close>\<close>

definition HEAPU8_set :: "byte list \<Rightarrow> int \<Rightarrow> 'f st \<Rightarrow> js_error + 'f st" where
  "HEAPU8_set source offset s =
     (case TypedArray_set (HEAPU8 (fst s)) source offset of
        Inl e \<Rightarrow> Inl e
      | Inr heap \<Rightarrow> Inr ((fst s)\<lparr>HEAPU8 := heap\<rparr>, snd s))"

section \<open>The class \<^verbatim>\<open>OpenSSL\<close>\<close>

text \<open>
  The object holds the instance and the flag \<^verbatim>\<open>initialized\<close>; its bound procedures are
  \<open>call_number\<close>, \<open>call_string\<close> and \<open>call_void\<close> at the names the constructor binds.
  Each method is a function from the state before to its result and the state after. A
  \<^verbatim>\<open>try { ... } finally { ... }\<close> runs the \<open>_try\<close> function and then the releases,
  whatever the \<open>_try\<close> function returned. The field \<^verbatim>\<open>instance\<close> is \<open>wasm_instance\<close>
  here, and \<^verbatim>\<open>_malloc\<close> and \<^verbatim>\<open>_free\<close> are \<open>malloc\<close> and \<open>free\<close>.
\<close>

record 'f OpenSSL =
  wasm_instance :: "'f OpenSSLWasmInstance"
  initialized :: bool

definition constructor :: "'f OpenSSLWasmInstance \<Rightarrow> 'f st \<Rightarrow> (js_error + 'f OpenSSL) \<times> 'f st" where
  "constructor inst s =
     (let (result, s1) = call_number inst ''openssl_init'' [] s
      in if result \<noteq> 1 then (Inl (Error (js ''Failed to initialize OpenSSL'')), s1)
         else (Inr \<lparr>wasm_instance = inst, initialized = True\<rparr>, s1))"

definition initialize :: "'f OpenSSLWasmInstance \<Rightarrow> 'f st \<Rightarrow> (js_error + 'f OpenSSL) \<times> 'f st" where
  "initialize wasmModule s = constructor wasmModule s"

definition version :: "'f OpenSSL \<Rightarrow> 'f st \<Rightarrow> jsstring \<times> 'f st" where
  "version this s = call_string (wasm_instance this) ''openssl_version'' [] s"

definition cleanup :: "'f OpenSSL \<Rightarrow> 'f st \<Rightarrow> 'f OpenSSL \<times> 'f st" where
  "cleanup this s =
     (if initialized this
      then (this\<lparr>initialized := False\<rparr>, call_void (wasm_instance this) ''openssl_cleanup'' [] s)
      else (this, s))"

definition randomBytes_try ::
  "'f OpenSSL \<Rightarrow> int \<Rightarrow> int \<Rightarrow> 'f st \<Rightarrow> (js_error + byte list) \<times> 'f st" where
  "randomBytes_try this ptr len s =
     (let (result, s1) = call_number (wasm_instance this) ''random_bytes'' [ptr, len] s
      in if result \<noteq> 1
         then (let (msg, s2) = call_string (wasm_instance this) ''get_error_string'' [] s1
               in (Inl (Error (js ''Failed to generate random bytes: '' @ msg)), s2))
         else (read_bytes (HEAPU8 (fst s1)) ptr len, s1))"

definition randomBytes :: "'f OpenSSL \<Rightarrow> int \<Rightarrow> 'f st \<Rightarrow> (js_error + byte list) \<times> 'f st" where
  "randomBytes this len s =
     (let (ptr, s1) = do_malloc (wasm_instance this) len s;
          (r, s2) = randomBytes_try this ptr len s1;
          s3 = do_free (wasm_instance this) ptr s2
      in (r, s3))"

text \<open>
  The five digest methods are the same text up to the bound procedure, the label of the
  message and \<^verbatim>\<open>digestLength\<close>; \<open>digest\<close> is that text, with the three as parameters.
\<close>

definition digest_try ::
  "string \<Rightarrow> string \<Rightarrow> int \<Rightarrow> 'f OpenSSL \<Rightarrow> byte list \<Rightarrow> int \<Rightarrow> int \<Rightarrow> 'f st \<Rightarrow>
     (js_error + byte list) \<times> 'f st" where
  "digest_try proc label digestLength this inputData dataPtr digestPtr s =
     (case HEAPU8_set inputData dataPtr s of
        Inl e \<Rightarrow> (Inl e, s)
      | Inr s1 \<Rightarrow>
          (let (result, s2) =
                 call_number (wasm_instance this) proc
                   [dataPtr, int (length inputData), digestPtr] s1
           in if result \<noteq> 1
              then (let (msg, s3) = call_string (wasm_instance this) ''get_error_string'' [] s2
                    in (Inl (Error (js label @ msg)), s3))
              else (read_bytes (HEAPU8 (fst s2)) digestPtr digestLength, s2)))"

definition digest ::
  "string \<Rightarrow> string \<Rightarrow> int \<Rightarrow> 'f OpenSSL \<Rightarrow> data \<Rightarrow> 'f st \<Rightarrow> (js_error + byte list) \<times> 'f st" where
  "digest proc label digestLength this d s =
     (let inputData = input_bytes d;
          (dataPtr, s1) = do_malloc (wasm_instance this) (int (length inputData)) s;
          (digestPtr, s2) = do_malloc (wasm_instance this) digestLength s1;
          (r, s3) = digest_try proc label digestLength this inputData dataPtr digestPtr s2;
          s4 = do_free (wasm_instance this) dataPtr s3;
          s5 = do_free (wasm_instance this) digestPtr s4
      in (r, s5))"

definition sha1 :: "'f OpenSSL \<Rightarrow> data \<Rightarrow> 'f st \<Rightarrow> (js_error + byte list) \<times> 'f st" where
  "sha1 = digest ''sha1_digest'' ''SHA-1 digest failed: '' 20"

definition sha256 :: "'f OpenSSL \<Rightarrow> data \<Rightarrow> 'f st \<Rightarrow> (js_error + byte list) \<times> 'f st" where
  "sha256 = digest ''sha256_digest'' ''SHA-256 digest failed: '' 32"

definition sha384 :: "'f OpenSSL \<Rightarrow> data \<Rightarrow> 'f st \<Rightarrow> (js_error + byte list) \<times> 'f st" where
  "sha384 = digest ''sha384_digest'' ''SHA-384 digest failed: '' 48"

definition sha512 :: "'f OpenSSL \<Rightarrow> data \<Rightarrow> 'f st \<Rightarrow> (js_error + byte list) \<times> 'f st" where
  "sha512 = digest ''sha512_digest'' ''SHA-512 digest failed: '' 64"

definition md5 :: "'f OpenSSL \<Rightarrow> data \<Rightarrow> 'f st \<Rightarrow> (js_error + byte list) \<times> 'f st" where
  "md5 = digest ''md5_digest'' ''MD5 digest failed: '' 16"

definition base64Encode_try ::
  "'f OpenSSL \<Rightarrow> byte list \<Rightarrow> int \<Rightarrow> int \<Rightarrow> 'f st \<Rightarrow> (js_error + jsstring) \<times> 'f st" where
  "base64Encode_try this inputData dataPtr outLenPtr s =
     (case HEAPU8_set inputData dataPtr s of
        Inl e \<Rightarrow> (Inl e, s)
      | Inr s1 \<Rightarrow>
          (let (resultPtr, s2) =
                 call_number (wasm_instance this) ''base64_encode''
                   [dataPtr, int (length inputData), outLenPtr] s1
           in if resultPtr = 0
              then (let (msg, s3) = call_string (wasm_instance this) ''get_error_string'' [] s2
                    in (Inl (Error (js ''Base64 encoding failed: '' @ msg)), s3))
              else (let (result, s3) = do_UTF8ToString (wasm_instance this) resultPtr s2;
                        s4 = do_free (wasm_instance this) resultPtr s3
                    in (Inr result, s4))))"

definition base64Encode :: "'f OpenSSL \<Rightarrow> data \<Rightarrow> 'f st \<Rightarrow> (js_error + jsstring) \<times> 'f st" where
  "base64Encode this d s =
     (let inputData = input_bytes d;
          (dataPtr, s1) = do_malloc (wasm_instance this) (int (length inputData)) s;
          (outLenPtr, s2) = do_malloc (wasm_instance this) 4 s1;
          (r, s3) = base64Encode_try this inputData dataPtr outLenPtr s2;
          s4 = do_free (wasm_instance this) dataPtr s3;
          s5 = do_free (wasm_instance this) outLenPtr s4
      in (r, s5))"

definition base64Decode_try ::
  "'f OpenSSL \<Rightarrow> jsstring \<Rightarrow> int \<Rightarrow> int \<Rightarrow> 'f st \<Rightarrow> (js_error + byte list) \<times> 'f st" where
  "base64Decode_try this str dataPtr outLenPtr s =
     (let s1 = do_stringToUTF8 (wasm_instance this) str dataPtr (int (length str) + 1) s;
          (resultPtr, s2) =
             call_number (wasm_instance this) ''base64_decode''
               [dataPtr, int (length str), outLenPtr] s1
      in if resultPtr = 0
         then (let (msg, s3) = call_string (wasm_instance this) ''get_error_string'' [] s2
               in (Inl (Error (js ''Base64 decoding failed: '' @ msg)), s3))
         else (let (outLen, s3) = do_getValue (wasm_instance this) outLenPtr s2
               in case read_bytes (HEAPU8 (fst s3)) resultPtr outLen of
                    Inl e \<Rightarrow> (Inl e, s3)
                  | Inr output \<Rightarrow> (Inr output, do_free (wasm_instance this) resultPtr s3)))"

definition base64Decode :: "'f OpenSSL \<Rightarrow> jsstring \<Rightarrow> 'f st \<Rightarrow> (js_error + byte list) \<times> 'f st" where
  "base64Decode this str s =
     (let (dataPtr, s1) = do_malloc (wasm_instance this) (int (length str)) s;
          (outLenPtr, s2) = do_malloc (wasm_instance this) 4 s1;
          (r, s3) = base64Decode_try this str dataPtr outLenPtr s2;
          s4 = do_free (wasm_instance this) dataPtr s3;
          s5 = do_free (wasm_instance this) outLenPtr s4
      in (r, s5))"

text \<open>The names of the public methods the class declares, in the order of the source.\<close>

definition OpenSSL_methods :: "string list" where
  "OpenSSL_methods =
     [''version'', ''cleanup'', ''randomBytes'', ''sha1'', ''sha256'', ''sha384'', ''sha512'',
      ''md5'', ''base64Encode'', ''base64Decode'', ''toHex'', ''fromHex'']"

section \<open>Reading the record of calls\<close>

text \<open>
  The calls one run of a method added to the record, the addresses \<^verbatim>\<open>_malloc\<close> returned
  in them and the addresses passed to \<^verbatim>\<open>_free\<close>, each in order.
\<close>

definition issued :: "('f st \<Rightarrow> 'a \<times> 'f st) \<Rightarrow> 'f st \<Rightarrow> event list" where
  "issued op s = drop (length (snd s)) (snd (snd (op s)))"

fun allocated :: "event list \<Rightarrow> int list" where
  "allocated [] = []"
| "allocated (Malloc n p # es) = p # allocated es"
| "allocated (e # es) = allocated es"

fun freed :: "event list \<Rightarrow> int list" where
  "freed [] = []"
| "freed (Free p # es) = p # freed es"
| "freed (e # es) = freed es"

section \<open>A test double of the module\<close>

text \<open>
  A module for running the methods on concrete inputs. Its allocator hands out
  consecutive blocks, eight bytes apart, and answers 0 once the request does not fit below
  the end of the memory; every numeric procedure answers \<open>status\<close> and leaves the memory
  as it is; \<open>stringToUTF8\<close> writes the characters, one byte each, up to its limit less
  one, and then a zero byte, as the runtime's does on a string of ASCII characters. In
  \<open>blank\<close> the allocator has room, in \<open>exhausted\<close> it has none, and \<open>marked\<close> is
  \<open>blank\<close> with every byte of the memory set to \<open>0xFF\<close>.
\<close>

definition stub :: "int \<Rightarrow> nat OpenSSLWasmInstance" where
  "stub status =
     \<lparr> cwrap_number = (\<lambda>name args w. (status, w)),
       cwrap_string = (\<lambda>name args w. (js ''error:0'', w)),
       cwrap_void = (\<lambda>name args w. w),
       UTF8ToString = (\<lambda>ptr w. []),
       stringToUTF8 = (\<lambda>str ptr n w.
          if n \<le> 0 then w
          else (case TypedArray_set (HEAPU8 w) (map ucast (take (nat n - 1) str) @ [0]) ptr of
                  Inl e \<Rightarrow> w
                | Inr heap \<Rightarrow> w\<lparr>HEAPU8 := heap\<rparr>)),
       getValue_i32 = (\<lambda>ptr w. 0),
       malloc = (\<lambda>n w.
          if n < 0 \<or> int (foreign w) + n \<ge> int (length (HEAPU8 w)) then (0, w)
          else (int (foreign w), w\<lparr>foreign := foreign w + nat n + 8\<rparr>)),
       free = (\<lambda>ptr w. w) \<rparr>"

definition handle :: "int \<Rightarrow> nat OpenSSL" where
  "handle status = \<lparr>wasm_instance = stub status, initialized = True\<rparr>"

definition blank :: "nat st" where
  "blank = (\<lparr>HEAPU8 = replicate 128 0, foreign = 8\<rparr>, [])"

definition exhausted :: "nat st" where
  "exhausted = (\<lparr>HEAPU8 = replicate 128 0, foreign = 128\<rparr>, [])"

definition marked :: "nat st" where
  "marked = (\<lparr>HEAPU8 = replicate 128 0xFF, foreign = 8\<rparr>, [])"

section \<open>Facts used throughout\<close>

lemma allocated_append: "allocated (xs @ ys) = allocated xs @ allocated ys"
  by (induction xs rule: allocated.induct) simp_all

lemma freed_append: "freed (xs @ ys) = freed xs @ freed ys"
  by (induction xs rule: freed.induct) simp_all



lemma stub_simps:
  "cwrap_number (stub st) name args w = (st, w)"
  "cwrap_string (stub st) name args w = (js ''error:0'', w)"
  "cwrap_void (stub st) name args w = w"
  "UTF8ToString (stub st) ptr w = []"
  "stringToUTF8 (stub st) str ptr n w =
     (if n \<le> 0 then w
      else (case TypedArray_set (HEAPU8 w) (map ucast (take (nat n - 1) str) @ [0]) ptr of
              Inl e \<Rightarrow> w
            | Inr heap \<Rightarrow> w\<lparr>HEAPU8 := heap\<rparr>))"
  "getValue_i32 (stub st) ptr w = 0"
  "malloc (stub st) n w =
     (if n < 0 \<or> int (foreign w) + n \<ge> int (length (HEAPU8 w)) then (0, w)
      else (int (foreign w), w\<lparr>foreign := foreign w + nat n + 8\<rparr>))"
  "free (stub st) ptr w = w"
  "wasm_instance (handle st) = stub st"
  "initialized (handle st) = True"
  by (simp_all add: stub_def handle_def)

section \<open>Hex conversion: the round trip\<close>

lemma nat_less_16_cases:
  "d < 16 \<Longrightarrow> d \<in> {0, 1, 2, 3, 4, 5, 6, 7, 8, 9, 10, 11, 12, 13, 14, 15::nat}"
  by (simp only: insert_iff empty_iff) arith

lemma hex_digit_props:
  assumes "d < 16"
  shows "is_hex_digit (hex_digit d)"
    and "\<not> is_white_space (hex_digit d)"
    and "hex_digit d \<noteq> 0x2B" and "hex_digit d \<noteq> 0x2D"
    and "hex_digit d \<noteq> 0x78" and "hex_digit d \<noteq> 0x58"
    and "digit_value (hex_digit d) = int d"
    and "(0x30 \<le> hex_digit d \<and> hex_digit d \<le> 0x39) \<or> (0x61 \<le> hex_digit d \<and> hex_digit d \<le> 0x66)"
  using nat_less_16_cases [OF assms]
  by (elim insertE emptyE;
      simp add: hex_digit_def is_hex_digit_def is_white_space_def digit_value_def)+

lemma parseInt16_pair:
  assumes "h < 16" "l < 16"
  shows "parseInt16 [hex_digit h, hex_digit l] = Some (int (16 * h + l))"
proof -
  note H = hex_digit_props [OF assms(1)]
  note L = hex_digit_props [OF assms(2)]
  have ws: "dropWhile is_white_space [hex_digit h, hex_digit l] = [hex_digit h, hex_digit l]"
    using H(2) by simp
  have sg: "strip_sign [hex_digit h, hex_digit l] = [hex_digit h, hex_digit l]"
    using H(3,4) by (simp add: strip_sign_def)
  have pf: "strip_prefix [hex_digit h, hex_digit l] = [hex_digit h, hex_digit l]"
    using L(5,6) by (simp add: strip_prefix_def)
  have tw: "takeWhile is_hex_digit [hex_digit h, hex_digit l] = [hex_digit h, hex_digit l]"
    using H(1) L(1) by simp
  show ?thesis
    unfolding parseInt16_def Let_def ws sg pf tw
    using H(4) H(7) L(7) by simp
qed

lemma byte_toString16:
  fixes b :: byte
  shows "padStart 2 0x30 (Number_toString16 (unat b)) =
         [hex_digit (unat b div 16), hex_digit (unat b mod 16)]"
proof -
  have lt: "unat b < 256" using unsigned_less [of b] by simp
  show ?thesis
  proof (cases "unat b < 16")
    case True
    then show ?thesis
      by (simp add: Number_toString16.simps [of "unat b"] padStart_def hex_digit_def)
  next
    case False
    with lt have "unat b div 16 < 16" by simp
    with False show ?thesis
      by (simp add: Number_toString16.simps [of "unat b"]
            Number_toString16.simps [of "unat b div 16"] padStart_def)
  qed
qed

lemma ToUint8_pair:
  fixes b :: byte
  shows "ToUint8 (parseInt16 [hex_digit (unat b div 16), hex_digit (unat b mod 16)]) = b"
proof -
  have lt: "unat b < 256" using unsigned_less [of b] by simp
  then have "unat b div 16 < 16" by simp
  moreover have "unat b mod 16 < 16" by simp
  ultimately have "parseInt16 [hex_digit (unat b div 16), hex_digit (unat b mod 16)]
      = Some (int (16 * (unat b div 16) + unat b mod 16))"
    by (rule parseInt16_pair)
  then show ?thesis by (simp add: ToUint8_def)
qed

lemma toHex_Nil: "toHex [] = []"
  by (simp add: toHex_def)

lemma toHex_Cons:
  "toHex (b # bs) = hex_digit (unat b div 16) # hex_digit (unat b mod 16) # toHex bs"
  by (simp add: toHex_def byte_toString16)

lemma length_toHex: "length (toHex bs) = 2 * length bs"
  by (induction bs) (simp_all add: toHex_Nil toHex_Cons)

lemma drop_toHex: "drop (2 * k) (toHex bs) = toHex (drop k bs)"
proof (induction bs arbitrary: k)
  case Nil
  then show ?case by (simp add: toHex_Nil)
next
  case (Cons b bs)
  show ?case
  proof (cases k)
    case 0
    then show ?thesis by simp
  next
    case (Suc j)
    then show ?thesis using Cons.IH [of j] by (simp add: toHex_Cons)
  qed
qed

lemma substring_toHex:
  assumes "k < length bs"
  shows "substring (toHex bs) (2 * k) (2 * k + 2) =
         [hex_digit (unat (bs ! k) div 16), hex_digit (unat (bs ! k) mod 16)]"
proof -
  from assms have d: "drop k bs = bs ! k # drop (Suc k) bs"
    by (simp add: Cons_nth_drop_Suc)
  have "substring (toHex bs) (2 * k) (2 * k + 2) = take 2 (drop (2 * k) (toHex bs))"
    using assms by (simp add: substring_def Let_def length_toHex min_def max_def)
  also have "\<dots> = take 2 (toHex (drop k bs))"
    by (simp only: drop_toHex)
  finally show ?thesis by (simp add: d toHex_Cons)
qed

text \<open>
  The loop invariant on the output of \<open>toHex\<close>: after \<open>k\<close> rounds the first \<open>k\<close> bytes
  still to be written are those of the input.
\<close>

lemma fromHex_loop_toHex:
  assumes "k \<le> length bs" "length bytes = length bs"
  shows "fromHex_loop (toHex bs) (2 * k) bytes = take k bytes @ drop k bs"
  using assms
proof (induction "length bs - k" arbitrary: k bytes)
  case 0
  then have "k = length bs" by simp
  with 0 show ?case
    by (simp add: fromHex_loop.simps [of _ "2 * length bs"] length_toHex)
next
  case (Suc n)
  then have lt: "k < length bs" by simp
  let ?bytes = "bytes[k := bs ! k]"
  have i: "2 * k < length (toHex bs)" "2 * k div 2 = k" "2 * k + 2 = 2 * Suc k"
    using lt by (simp_all add: length_toHex)
  have "ToUint8 (parseInt16 (substring (toHex bs) (2 * k) (2 * k + 2))) = bs ! k"
    using lt by (simp only: substring_toHex ToUint8_pair)
  then have v: "ToUint8 (parseInt16 (substring (toHex bs) (2 * k) (2 * Suc k))) = bs ! k"
    by (simp only: i)
  have step: "fromHex_loop (toHex bs) (2 * k) bytes = fromHex_loop (toHex bs) (2 * Suc k) ?bytes"
    by (subst fromHex_loop.simps) (simp only: i v if_True)
  have "fromHex_loop (toHex bs) (2 * Suc k) ?bytes = take (Suc k) ?bytes @ drop (Suc k) bs"
    using Suc lt by (intro Suc.hyps(1)) simp_all
  also have "\<dots> = take k bytes @ drop k bs"
    using lt Suc.prems(2)
    by (simp add: take_Suc_conv_app_nth Cons_nth_drop_Suc)
  finally show ?case using step by simp
qed

text \<open>
  Claim C5. For every byte sequence \<open>b\<close>, \<open>fromHex (toHex b)\<close> returns \<open>b\<close>, and
  \<open>toHex b\<close> has two characters for each byte of \<open>b\<close>, each of them one of
  \<^verbatim>\<open>0-9\<close> and \<^verbatim>\<open>a-f\<close>.
\<close>

theorem fromHex_toHex_roundtrip:
  "fromHex (toHex b) = Inr b \<and>
   length (toHex b) = 2 * length b \<and>
   list_all (\<lambda>c. (0x30 \<le> c \<and> c \<le> 0x39) \<or> (0x61 \<le> c \<and> c \<le> 0x66)) (toHex b)"
proof (intro conjI)
  have "fromHex_loop (toHex b) (2 * 0) (replicate (length b) 0) = b"
    by (subst fromHex_loop_toHex) simp_all
  then show "fromHex (toHex b) = Inr b"
    by (simp add: fromHex_def length_toHex)
  show "length (toHex b) = 2 * length b"
    by (rule length_toHex)
  show "list_all (\<lambda>c. (0x30 \<le> c \<and> c \<le> 0x39) \<or> (0x61 \<le> c \<and> c \<le> 0x66)) (toHex b)"
  proof (induction b)
    case Nil
    then show ?case by (simp add: toHex_Nil)
  next
    case (Cons x xs)
    have "unat x < 256" using unsigned_less [of x] by simp
    then have "unat x div 16 < 16" "unat x mod 16 < 16" by simp_all
    then show ?case
      using Cons hex_digit_props(8) by (simp add: toHex_Cons)
  qed
qed

text \<open>
  Claim C8. The claim asks that \<open>fromHex\<close>, given an even-length string with characters
  that are not hexadecimal digits, signal a failure. On \<^verbatim>\<open>"zz"\<close> the method returns
  normally, with the byte 0: \<^verbatim>\<open>parseInt("zz", 16)\<close> is \<^verbatim>\<open>NaN\<close>, stored as 0.
\<close>

theorem fromHex_non_hex_returns_zero: "fromHex (js ''zz'') = Inr [0]"
  by (simp add: fromHex_def js_def fromHex_loop.simps substring_def parseInt16_def
      is_white_space_def is_hex_digit_def strip_sign_def strip_prefix_def ToUint8_def)

section \<open>\<^verbatim>\<open>randomBytes\<close>\<close>


lemma randomBytes_issued:
  "issued (randomBytes this n) s =
     (let (p, w1) = malloc (wasm_instance this) n (fst s);
          (r, w2) = cwrap_number (wasm_instance this) ''random_bytes'' [p, n] w1
      in [Malloc n p, Call ''random_bytes'' [p, n]] @
         (if r \<noteq> 1 then [Call ''get_error_string'' []] else []) @ [Free p])"
  by (simp add: issued_def randomBytes_def randomBytes_try_def do_malloc_def do_free_def
      call_number_def call_string_def split_beta Let_def)



section \<open>The digests\<close>

lemma digest_result:
  "fst (digest proc label dl this d s) =
     (let inputData = input_bytes d;
          n = int (length inputData);
          (p1, w1) = malloc (wasm_instance this) n (fst s);
          (p2, w2) = malloc (wasm_instance this) dl w1
      in case TypedArray_set (HEAPU8 w2) inputData p1 of
           Inl e \<Rightarrow> Inl e
         | Inr heap \<Rightarrow>
             (let (result, w3) =
                    cwrap_number (wasm_instance this) proc [p1, n, p2] (w2\<lparr>HEAPU8 := heap\<rparr>);
                  (msg, w4) = cwrap_string (wasm_instance this) ''get_error_string'' [] w3
              in if result \<noteq> 1 then Inl (Error (js label @ msg))
                 else read_bytes (HEAPU8 w3) p2 dl))"
  by (simp add: digest_def digest_try_def do_malloc_def do_free_def HEAPU8_set_def
      call_number_def call_string_def split_beta Let_def split: sum.split)

lemma digest_issued:
  "issued (digest proc label dl this d) s =
     (let inputData = input_bytes d;
          n = int (length inputData);
          (p1, w1) = malloc (wasm_instance this) n (fst s);
          (p2, w2) = malloc (wasm_instance this) dl w1
      in [Malloc n p1, Malloc dl p2] @
         (case TypedArray_set (HEAPU8 w2) inputData p1 of
            Inl e \<Rightarrow> []
          | Inr heap \<Rightarrow>
              Call proc [p1, n, p2] #
              (if fst (cwrap_number (wasm_instance this) proc [p1, n, p2] (w2\<lparr>HEAPU8 := heap\<rparr>)) \<noteq> 1
               then [Call ''get_error_string'' []] else [])) @
         [Free p1, Free p2])"
  by (simp add: issued_def digest_def digest_try_def do_malloc_def do_free_def HEAPU8_set_def
      call_number_def call_string_def split_beta Let_def split: sum.split)





section \<open>The Base64 methods\<close>

lemma base64Decode_issued:
  "issued (base64Decode this str) s =
     (let n = int (length str);
          (p1, w1) = malloc (wasm_instance this) n (fst s);
          (p2, w2) = malloc (wasm_instance this) 4 w1;
          w3 = stringToUTF8 (wasm_instance this) str p1 (n + 1) w2;
          (rp, w4) = cwrap_number (wasm_instance this) ''base64_decode'' [p1, n, p2] w3
      in [Malloc n p1, Malloc 4 p2, StringToUTF8 str p1 (n + 1),
          Call ''base64_decode'' [p1, n, p2]] @
         (if rp = 0 then [Call ''get_error_string'' []]
          else GetValue p2 #
               (case read_bytes (HEAPU8 w4) rp (getValue_i32 (wasm_instance this) p2 w4) of
                  Inl e \<Rightarrow> []
                | Inr out \<Rightarrow> [Free rp])) @
         [Free p1, Free p2])"
  by (simp add: issued_def base64Decode_def base64Decode_try_def do_malloc_def do_free_def
      do_stringToUTF8_def do_getValue_def call_number_def call_string_def
      split_beta Let_def split: sum.split)

lemma base64Decode_result:
  "fst (base64Decode this str s) =
     (let n = int (length str);
          (p1, w1) = malloc (wasm_instance this) n (fst s);
          (p2, w2) = malloc (wasm_instance this) 4 w1;
          w3 = stringToUTF8 (wasm_instance this) str p1 (n + 1) w2;
          (rp, w4) = cwrap_number (wasm_instance this) ''base64_decode'' [p1, n, p2] w3;
          (msg, w5) = cwrap_string (wasm_instance this) ''get_error_string'' [] w4
      in if rp = 0 then Inl (Error (js ''Base64 decoding failed: '' @ msg))
         else read_bytes (HEAPU8 w4) rp (getValue_i32 (wasm_instance this) p2 w4))"
  by (simp add: base64Decode_def base64Decode_try_def do_malloc_def do_free_def
      do_stringToUTF8_def do_getValue_def call_number_def call_string_def
      split_beta Let_def split: sum.split)

lemma base64Encode_issued:
  "issued (base64Encode this d) s =
     (let inputData = input_bytes d;
          n = int (length inputData);
          (p1, w1) = malloc (wasm_instance this) n (fst s);
          (p2, w2) = malloc (wasm_instance this) 4 w1
      in [Malloc n p1, Malloc 4 p2] @
         (case TypedArray_set (HEAPU8 w2) inputData p1 of
            Inl e \<Rightarrow> []
          | Inr heap \<Rightarrow>
              (let rp = fst (cwrap_number (wasm_instance this) ''base64_encode'' [p1, n, p2]
                              (w2\<lparr>HEAPU8 := heap\<rparr>))
               in Call ''base64_encode'' [p1, n, p2] #
                  (if rp = 0 then [Call ''get_error_string'' []]
                   else [UTF8ToString_call rp, Free rp]))) @
         [Free p1, Free p2])"
  by (simp add: issued_def base64Encode_def base64Encode_try_def do_malloc_def do_free_def
      do_UTF8ToString_def HEAPU8_set_def call_number_def call_string_def
      split_beta Let_def split: sum.split)

lemma base64Encode_result:
  "fst (base64Encode this d s) =
     (let inputData = input_bytes d;
          n = int (length inputData);
          (p1, w1) = malloc (wasm_instance this) n (fst s);
          (p2, w2) = malloc (wasm_instance this) 4 w1
      in case TypedArray_set (HEAPU8 w2) inputData p1 of
           Inl e \<Rightarrow> Inl e
         | Inr heap \<Rightarrow>
             (let (rp, w3) =
                    cwrap_number (wasm_instance this) ''base64_encode'' [p1, n, p2]
                      (w2\<lparr>HEAPU8 := heap\<rparr>);
                  (msg, w4) = cwrap_string (wasm_instance this) ''get_error_string'' [] w3
              in if rp = 0 then Inl (Error (js ''Base64 encoding failed: '' @ msg))
                 else Inr (UTF8ToString (wasm_instance this) rp w3)))"
  by (simp add: base64Encode_def base64Encode_try_def do_malloc_def do_free_def
      do_UTF8ToString_def HEAPU8_set_def call_number_def call_string_def
      split_beta Let_def split: sum.split)

lemma base64Decode_heap_marked:
  "HEAPU8 (fst (snd (base64Decode (handle 0) (js ''AAAA'') marked))) =
     replicate 8 0xFF @ [0x41, 0x41, 0x41, 0x41, 0] @ replicate 115 0xFF"
  by (simp add: base64Decode_def base64Decode_try_def do_malloc_def do_free_def
      do_stringToUTF8_def do_getValue_def call_number_def call_string_def
      stub_simps marked_def js_def TypedArray_set_def split_beta Let_def)

text \<open>
  Claim C9. For every string \<open>str\<close>, the empty one too, \<open>base64Decode\<close> first asks
  \<^verbatim>\<open>_malloc\<close> for \<open>length str\<close> bytes, then for the four bytes of the length, and then
  calls \<^verbatim>\<open>stringToUTF8\<close> on the first address with the limit \<open>length str + 1\<close>: one
  byte more than the block has. In the example the block is the four bytes from address 8,
  and the byte at address 12, past its end, is overwritten with the terminating zero.
\<close>

theorem base64Decode_write_limit:
  "take 3 (issued (base64Decode this str) s) =
     (let (dataPtr, w1) = malloc (wasm_instance this) (int (length str)) (fst s);
          (outLenPtr, w2) = malloc (wasm_instance this) 4 w1
      in [Malloc (int (length str)) dataPtr, Malloc 4 outLenPtr,
          StringToUTF8 str dataPtr (int (length str) + 1)])"
  by (simp add: base64Decode_issued split_beta Let_def)

theorem base64Decode_write_limit_example:
  "take 3 (issued (base64Decode (handle 0) (js ''AAAA'')) marked) =
     [Malloc 4 8, Malloc 4 20, StringToUTF8 (js ''AAAA'') 8 5] \<and>
   HEAPU8 (fst marked) ! 12 = 0xFF \<and>
   HEAPU8 (fst (snd (base64Decode (handle 0) (js ''AAAA'') marked))) ! 12 = 0"
proof -
  have "take 3 (issued (base64Decode (handle 0) (js ''AAAA'')) marked) =
          [Malloc 4 8, Malloc 4 20, StringToUTF8 (js ''AAAA'') 8 5]"
    using base64Decode_write_limit [of "handle 0" "js ''AAAA''" marked]
    by (simp add: stub_simps marked_def js_def)
  moreover have "HEAPU8 (fst marked) ! 12 = 0xFF"
    by (simp add: marked_def)
  moreover have "HEAPU8 (fst (snd (base64Decode (handle 0) (js ''AAAA'') marked))) ! 12 = 0"
    by (simp only: base64Decode_heap_marked) (simp add: nth_append)
  ultimately show ?thesis by simp
qed

section \<open>\<^verbatim>\<open>cleanup\<close> and the public surface\<close>

lemma constructor_initialized:
  assumes "fst (constructor inst s) = Inr h"
  shows "initialized h \<and> wasm_instance h = inst"
  using assms by (auto simp: constructor_def split_beta Let_def split: if_splits)

lemma cleanup_again:
  assumes "\<not> initialized this"
  shows "((\<lambda>(t, s'). cleanup t s') ^^ n) (this, s) = (this, s)"
  using assms by (induction n) (simp_all add: cleanup_def)

text \<open>
  Claim C10. On a handle whose flag \<^verbatim>\<open>initialized\<close> is set, as it is on every handle the
  constructor returns, \<open>cleanup\<close> calls \<^verbatim>\<open>openssl_cleanup\<close> once and clears the flag;
  any number of further calls of \<open>cleanup\<close> leave the handle, the module and the record
  of calls as the first call left them.
\<close>

theorem cleanup_idempotent:
  "initialized this \<longrightarrow>
     cleanup this s =
       (this\<lparr>initialized := False\<rparr>,
        (cwrap_void (wasm_instance this) ''openssl_cleanup'' [] (fst s),
         snd s @ [Call ''openssl_cleanup'' []])) \<and>
     (\<forall>n. ((\<lambda>(t, s'). cleanup t s') ^^ n) (cleanup this s) = cleanup this s)"
proof
  assume init: "initialized this"
  let ?after = "(this\<lparr>initialized := False\<rparr>,
    (cwrap_void (wasm_instance this) ''openssl_cleanup'' [] (fst s),
     snd s @ [Call ''openssl_cleanup'' []]))"
  from init have first: "cleanup this s = ?after"
    by (simp add: cleanup_def call_void_def)
  have "((\<lambda>(t, s'). cleanup t s') ^^ n) ?after = ?after" for n
    by (rule cleanup_again) simp
  with first show "cleanup this s = ?after \<and>
      (\<forall>n. ((\<lambda>(t, s'). cleanup t s') ^^ n) (cleanup this s) = cleanup this s)"
    by simp
qed

theorem cleanup_idempotent_witness:
  "fst (initialize (stub 1) blank) = Inr (handle 1) \<and>
   initialized (handle 1) \<and>
   cleanup (handle 1) (snd (initialize (stub 1) blank)) =
     ((handle 1)\<lparr>initialized := False\<rparr>,
      (fst blank, [Call ''openssl_init'' [], Call ''openssl_cleanup'' []])) \<and>
   cleanup ((handle 1)\<lparr>initialized := False\<rparr>)
       (fst blank, [Call ''openssl_init'' [], Call ''openssl_cleanup'' []]) =
     ((handle 1)\<lparr>initialized := False\<rparr>,
      (fst blank, [Call ''openssl_init'' [], Call ''openssl_cleanup'' []]))"
  using cleanup_idempotent [of "handle 1" "snd (initialize (stub 1) blank)"]
  by (simp add: initialize_def constructor_def call_number_def stub_simps handle_def
      cleanup_def blank_def)

text \<open>
  Claim C2. The claim asks that every handle provide the AES and RSA methods. The class
  declares none of them: a call of \<^verbatim>\<open>aesEncrypt\<close> on a handle finds no such property.
\<close>

theorem handle_lacks_aes_and_rsa:
  "''aesEncrypt'' \<notin> set OpenSSL_methods \<and> ''aesDecrypt'' \<notin> set OpenSSL_methods \<and>
   ''generateRsaKeyPair'' \<notin> set OpenSSL_methods \<and>
   ''rsaEncrypt'' \<notin> set OpenSSL_methods \<and> ''rsaDecrypt'' \<notin> set OpenSSL_methods \<and>
   ''rsaSign'' \<notin> set OpenSSL_methods \<and> ''rsaVerify'' \<notin> set OpenSSL_methods"
  by (simp add: OpenSSL_methods_def)

section \<open>Release of the buffers\<close>

lemma randomBytes_frees:
  "(let (p, w1) = malloc (wasm_instance this) n (fst s);
        e = issued (randomBytes this n) s
    in allocated e = [p] \<and> freed e = [p])"
  by (simp add: randomBytes_issued split_beta Let_def)

lemma digest_frees:
  "(let inputData = input_bytes d;
        n = int (length inputData);
        (p1, w1) = malloc (wasm_instance this) n (fst s);
        (p2, w2) = malloc (wasm_instance this) dl w1;
        e = issued (digest proc label dl this d) s
    in allocated e = [p1, p2] \<and> freed e = [p1, p2])"
  by (simp add: digest_issued split_beta Let_def freed_append allocated_append split: sum.split)

lemma base64Encode_frees:
  "(let inputData = input_bytes d;
        n = int (length inputData);
        (p1, w1) = malloc (wasm_instance this) n (fst s);
        (p2, w2) = malloc (wasm_instance this) 4 w1;
        e = issued (base64Encode this d) s
    in allocated e = [p1, p2] \<and>
       freed e =
         (case TypedArray_set (HEAPU8 w2) inputData p1 of
            Inl err \<Rightarrow> []
          | Inr heap \<Rightarrow>
              (let resultPtr =
                     fst (cwrap_number (wasm_instance this) ''base64_encode'' [p1, n, p2]
                           (w2\<lparr>HEAPU8 := heap\<rparr>))
               in if resultPtr = 0 then [] else [resultPtr])) @ [p1, p2] \<and>
       length (freed e) = (if isl (fst (base64Encode this d s)) then 2 else 3))"
  by (simp add: base64Encode_issued base64Encode_result split_beta Let_def
      freed_append allocated_append split: sum.split)

lemma base64Decode_frees:
  "(let n = int (length str);
        (p1, w1) = malloc (wasm_instance this) n (fst s);
        (p2, w2) = malloc (wasm_instance this) 4 w1;
        w3 = stringToUTF8 (wasm_instance this) str p1 (n + 1) w2;
        (resultPtr, w4) = cwrap_number (wasm_instance this) ''base64_decode'' [p1, n, p2] w3;
        e = issued (base64Decode this str) s
    in allocated e = [p1, p2] \<and>
       freed e =
         (if resultPtr = 0 then []
          else (case read_bytes (HEAPU8 w4) resultPtr (getValue_i32 (wasm_instance this) p2 w4) of
                  Inl err \<Rightarrow> []
                | Inr out \<Rightarrow> [resultPtr])) @ [p1, p2] \<and>
       length (freed e) = (if isl (fst (base64Decode this str s)) then 2 else 3))"
  by (simp add: base64Decode_issued base64Decode_result split_beta Let_def
      freed_append allocated_append split: sum.split)

text \<open>
  Claim C1, as the code has it. The claim's count, as many calls of \<^verbatim>\<open>_free\<close> as of
  \<^verbatim>\<open>_malloc\<close>, fails for \<open>base64Encode\<close> and \<open>base64Decode\<close> when they return a
  result: they also free the buffer that the foreign procedure allocated for its result.
  On the empty input \<open>base64Encode\<close> issues two allocations and three releases.
\<close>

theorem base64Encode_frees_more_than_allocated:
  "allocated (issued (base64Encode (handle 1) (Bytes [])) blank) = [8, 16] \<and>
   freed (issued (base64Encode (handle 1) (Bytes [])) blank) = [1, 8, 16] \<and>
   length (freed (issued (base64Encode (handle 1) (Bytes [])) blank)) \<noteq>
     length (allocated (issued (base64Encode (handle 1) (Bytes [])) blank))"
  by (simp add: base64Encode_issued stub_simps blank_def input_bytes_def TypedArray_set_def
      split_beta Let_def)

text \<open>
  Claim C1, amended. On every run of \<open>randomBytes\<close> and of the five digests, returning
  or throwing, the addresses passed to \<^verbatim>\<open>_free\<close> are the addresses \<^verbatim>\<open>_malloc\<close>
  returned, each once and in the same order: one for \<open>randomBytes\<close>, two for a digest. On
  every run of \<open>base64Encode\<close> and \<open>base64Decode\<close> the addresses passed to \<^verbatim>\<open>_free\<close>
  are, in this order: the address the foreign procedure returned for its result, exactly
  when the method goes on to return (the address is not 0 and, for \<open>base64Decode\<close>, the
  copy out of the memory did not throw); then the two addresses \<^verbatim>\<open>_malloc\<close> returned,
  each once. So a run that throws issues two releases and a run that returns issues three,
  against two allocations.
\<close>

theorem buffers_released_on_every_path:
  "(let (p, w1) = malloc (wasm_instance this) n (fst s);
        e = issued (randomBytes this n) s
    in allocated e = [p] \<and> freed e = [p]) \<and>
   (let inputData = input_bytes d;
        n = int (length inputData);
        (p1, w1) = malloc (wasm_instance this) n (fst s);
        (p2, w2) = malloc (wasm_instance this) 20 w1;
        e = issued (sha1 this d) s
    in allocated e = [p1, p2] \<and> freed e = [p1, p2]) \<and>
   (let inputData = input_bytes d;
        n = int (length inputData);
        (p1, w1) = malloc (wasm_instance this) n (fst s);
        (p2, w2) = malloc (wasm_instance this) 32 w1;
        e = issued (sha256 this d) s
    in allocated e = [p1, p2] \<and> freed e = [p1, p2]) \<and>
   (let inputData = input_bytes d;
        n = int (length inputData);
        (p1, w1) = malloc (wasm_instance this) n (fst s);
        (p2, w2) = malloc (wasm_instance this) 48 w1;
        e = issued (sha384 this d) s
    in allocated e = [p1, p2] \<and> freed e = [p1, p2]) \<and>
   (let inputData = input_bytes d;
        n = int (length inputData);
        (p1, w1) = malloc (wasm_instance this) n (fst s);
        (p2, w2) = malloc (wasm_instance this) 64 w1;
        e = issued (sha512 this d) s
    in allocated e = [p1, p2] \<and> freed e = [p1, p2]) \<and>
   (let inputData = input_bytes d;
        n = int (length inputData);
        (p1, w1) = malloc (wasm_instance this) n (fst s);
        (p2, w2) = malloc (wasm_instance this) 16 w1;
        e = issued (md5 this d) s
    in allocated e = [p1, p2] \<and> freed e = [p1, p2]) \<and>
   (let inputData = input_bytes d;
        n = int (length inputData);
        (p1, w1) = malloc (wasm_instance this) n (fst s);
        (p2, w2) = malloc (wasm_instance this) 4 w1;
        e = issued (base64Encode this d) s
    in allocated e = [p1, p2] \<and>
       freed e =
         (case TypedArray_set (HEAPU8 w2) inputData p1 of
            Inl err \<Rightarrow> []
          | Inr heap \<Rightarrow>
              (let resultPtr =
                     fst (cwrap_number (wasm_instance this) ''base64_encode'' [p1, n, p2]
                           (w2\<lparr>HEAPU8 := heap\<rparr>))
               in if resultPtr = 0 then [] else [resultPtr])) @ [p1, p2] \<and>
       length (freed e) = (if isl (fst (base64Encode this d s)) then 2 else 3)) \<and>
   (let n = int (length str);
        (p1, w1) = malloc (wasm_instance this) n (fst s);
        (p2, w2) = malloc (wasm_instance this) 4 w1;
        w3 = stringToUTF8 (wasm_instance this) str p1 (n + 1) w2;
        (resultPtr, w4) = cwrap_number (wasm_instance this) ''base64_decode'' [p1, n, p2] w3;
        e = issued (base64Decode this str) s
    in allocated e = [p1, p2] \<and>
       freed e =
         (if resultPtr = 0 then []
          else (case read_bytes (HEAPU8 w4) resultPtr (getValue_i32 (wasm_instance this) p2 w4) of
                  Inl err \<Rightarrow> []
                | Inr out \<Rightarrow> [resultPtr])) @ [p1, p2] \<and>
       length (freed e) = (if isl (fst (base64Decode this str s)) then 2 else 3))"
  unfolding sha1_def sha256_def sha384_def sha512_def md5_def
  by (intro conjI randomBytes_frees digest_frees base64Encode_frees base64Decode_frees)

section \<open>An allocation that fails\<close>

lemma randomBytes_null:
  "0 \<in> set (allocated (issued (randomBytes this n) s)) \<longrightarrow>
     Call ''random_bytes'' [0, n] \<in> set (issued (randomBytes this n) s) \<and>
     freed (issued (randomBytes this n) s) = [0]"
  by (simp add: randomBytes_issued split_beta Let_def)

lemma digest_null:
  "(let inputData = input_bytes d;
        n = int (length inputData);
        (p1, w1) = malloc (wasm_instance this) n (fst s);
        (p2, w2) = malloc (wasm_instance this) dl w1;
        e = issued (digest proc label dl this d) s
    in 0 \<in> set (allocated e) \<longrightarrow>
         allocated e = [p1, p2] \<and>
         (TypedArray_set (HEAPU8 w2) inputData p1 = Inl RangeError \<or>
          Call proc [p1, n, p2] \<in> set e) \<and>
         freed e = [p1, p2])"
  by (simp add: digest_issued split_beta Let_def freed_append allocated_append
      TypedArray_set_def split: sum.split)

lemma base64Encode_null:
  "(let inputData = input_bytes d;
        n = int (length inputData);
        (p1, w1) = malloc (wasm_instance this) n (fst s);
        (p2, w2) = malloc (wasm_instance this) 4 w1;
        e = issued (base64Encode this d) s
    in 0 \<in> set (allocated e) \<longrightarrow>
         allocated e = [p1, p2] \<and>
         (TypedArray_set (HEAPU8 w2) inputData p1 = Inl RangeError \<or>
          Call ''base64_encode'' [p1, n, p2] \<in> set e) \<and>
         freed e =
           (case TypedArray_set (HEAPU8 w2) inputData p1 of
              Inl err \<Rightarrow> []
            | Inr heap \<Rightarrow>
                (let resultPtr =
                       fst (cwrap_number (wasm_instance this) ''base64_encode'' [p1, n, p2]
                             (w2\<lparr>HEAPU8 := heap\<rparr>))
                 in if resultPtr = 0 then [] else [resultPtr])) @ [p1, p2])"
  by (simp add: base64Encode_issued split_beta Let_def freed_append
      allocated_append TypedArray_set_def split: sum.split)

lemma base64Decode_null:
  "(let n = int (length str);
        (p1, w1) = malloc (wasm_instance this) n (fst s);
        (p2, w2) = malloc (wasm_instance this) 4 w1;
        w3 = stringToUTF8 (wasm_instance this) str p1 (n + 1) w2;
        (resultPtr, w4) = cwrap_number (wasm_instance this) ''base64_decode'' [p1, n, p2] w3;
        e = issued (base64Decode this str) s
    in 0 \<in> set (allocated e) \<longrightarrow>
         allocated e = [p1, p2] \<and>
         Call ''base64_decode'' [p1, n, p2] \<in> set e \<and>
         freed e =
           (if resultPtr = 0 then []
            else (case read_bytes (HEAPU8 w4) resultPtr
                         (getValue_i32 (wasm_instance this) p2 w4) of
                    Inl err \<Rightarrow> []
                  | Inr out \<Rightarrow> [resultPtr])) @ [p1, p2])"
  by (simp add: base64Decode_issued split_beta Let_def freed_append
      allocated_append split: sum.split)

lemma digest_exhausted:
  "issued (digest proc label dl (handle 1) (Bytes [1, 2, 3])) exhausted =
     [Malloc 3 0, Malloc dl 0, Call proc [0, 3, 0], Free 0, Free 0]"
  by (simp add: digest_issued stub_simps exhausted_def input_bytes_def TypedArray_set_def
      split_beta Let_def) linarith

lemma randomBytes_exhausted:
  "issued (randomBytes (handle 1) 4) exhausted =
     [Malloc 4 0, Call ''random_bytes'' [0, 4], Free 0]"
  by (simp add: randomBytes_issued stub_simps exhausted_def split_beta Let_def)

lemma base64Encode_exhausted:
  "issued (base64Encode (handle 1) (Bytes [1, 2, 3])) exhausted =
     [Malloc 3 0, Malloc 4 0, Call ''base64_encode'' [0, 3, 0], UTF8ToString_call 1, Free 1,
      Free 0, Free 0]"
  by (simp add: base64Encode_issued stub_simps exhausted_def input_bytes_def TypedArray_set_def
      split_beta Let_def)

lemma base64Decode_exhausted:
  "issued (base64Decode (handle 1) (js ''AAAA'')) exhausted =
     [Malloc 4 0, Malloc 4 0, StringToUTF8 (js ''AAAA'') 0 5,
      Call ''base64_decode'' [0, 4, 0], GetValue 0, Free 1, Free 0, Free 0]"
  by (simp add: base64Decode_issued stub_simps exhausted_def js_def TypedArray_set_def
      read_bytes_def new_Uint8Array_def Uint8Array_view_def split_beta Let_def)

text \<open>
  Claim C3, as the code has it. The claim asks that a method check the address
  \<^verbatim>\<open>_malloc\<close> returned against 0 and signal an allocation failure without calling the
  foreign procedure. With an allocator that has no room, \<open>sha256\<close> gets the address 0
  twice, copies the input to address 0, calls \<^verbatim>\<open>sha256_digest\<close> with the two zero
  addresses and returns the 32 bytes it then finds at address 0.
\<close>

theorem sha256_proceeds_on_null:
  "issued (sha256 (handle 1) (Bytes [1, 2, 3])) exhausted =
     [Malloc 3 0, Malloc 32 0, Call ''sha256_digest'' [0, 3, 0], Free 0, Free 0] \<and>
   fst (sha256 (handle 1) (Bytes [1, 2, 3]) exhausted) = Inr ([1, 2, 3] @ replicate 29 0)"
  by (simp add: sha256_def digest_issued digest_result stub_simps exhausted_def input_bytes_def
      TypedArray_set_def read_bytes_def new_Uint8Array_def Uint8Array_view_def
      split_beta Let_def)

text \<open>
  Claim C3, amended. No method compares an address \<^verbatim>\<open>_malloc\<close> returned with 0. When
  one of its allocations returned 0, the method still calls its foreign procedure, with
  the addresses as \<^verbatim>\<open>_malloc\<close> returned them; the one exception, for the methods that
  first copy the input into the memory, is that this very copy,
  \<^verbatim>\<open>HEAPU8.set(inputData, dataPtr)\<close>, threw a \<^verbatim>\<open>RangeError\<close>. The addresses
  \<^verbatim>\<open>_malloc\<close> returned, the zero one too, are still passed to \<^verbatim>\<open>_free\<close> at the end,
  each once; the Base64 methods release before them the address their foreign procedure
  returned, when they go on to return.
\<close>

theorem null_address_is_used:
  "(0 \<in> set (allocated (issued (randomBytes this n) s)) \<longrightarrow>
     Call ''random_bytes'' [0, n] \<in> set (issued (randomBytes this n) s) \<and>
     freed (issued (randomBytes this n) s) = [0]) \<and>
   (let inputData = input_bytes d;
        n = int (length inputData);
        (p1, w1) = malloc (wasm_instance this) n (fst s);
        (p2, w2) = malloc (wasm_instance this) 20 w1;
        e = issued (sha1 this d) s
    in 0 \<in> set (allocated e) \<longrightarrow>
         allocated e = [p1, p2] \<and>
         (TypedArray_set (HEAPU8 w2) inputData p1 = Inl RangeError \<or>
          Call ''sha1_digest'' [p1, n, p2] \<in> set e) \<and>
         freed e = [p1, p2]) \<and>
   (let inputData = input_bytes d;
        n = int (length inputData);
        (p1, w1) = malloc (wasm_instance this) n (fst s);
        (p2, w2) = malloc (wasm_instance this) 32 w1;
        e = issued (sha256 this d) s
    in 0 \<in> set (allocated e) \<longrightarrow>
         allocated e = [p1, p2] \<and>
         (TypedArray_set (HEAPU8 w2) inputData p1 = Inl RangeError \<or>
          Call ''sha256_digest'' [p1, n, p2] \<in> set e) \<and>
         freed e = [p1, p2]) \<and>
   (let inputData = input_bytes d;
        n = int (length inputData);
        (p1, w1) = malloc (wasm_instance this) n (fst s);
        (p2, w2) = malloc (wasm_instance this) 48 w1;
        e = issued (sha384 this d) s
    in 0 \<in> set (allocated e) \<longrightarrow>
         allocated e = [p1, p2] \<and>
         (TypedArray_set (HEAPU8 w2) inputData p1 = Inl RangeError \<or>
          Call ''sha384_digest'' [p1, n, p2] \<in> set e) \<and>
         freed e = [p1, p2]) \<and>
   (let inputData = input_bytes d;
        n = int (length inputData);
        (p1, w1) = malloc (wasm_instance this) n (fst s);
        (p2, w2) = malloc (wasm_instance this) 64 w1;
        e = issued (sha512 this d) s
    in 0 \<in> set (allocated e) \<longrightarrow>
         allocated e = [p1, p2] \<and>
         (TypedArray_set (HEAPU8 w2) inputData p1 = Inl RangeError \<or>
          Call ''sha512_digest'' [p1, n, p2] \<in> set e) \<and>
         freed e = [p1, p2]) \<and>
   (let inputData = input_bytes d;
        n = int (length inputData);
        (p1, w1) = malloc (wasm_instance this) n (fst s);
        (p2, w2) = malloc (wasm_instance this) 16 w1;
        e = issued (md5 this d) s
    in 0 \<in> set (allocated e) \<longrightarrow>
         allocated e = [p1, p2] \<and>
         (TypedArray_set (HEAPU8 w2) inputData p1 = Inl RangeError \<or>
          Call ''md5_digest'' [p1, n, p2] \<in> set e) \<and>
         freed e = [p1, p2]) \<and>
   (let inputData = input_bytes d;
        n = int (length inputData);
        (p1, w1) = malloc (wasm_instance this) n (fst s);
        (p2, w2) = malloc (wasm_instance this) 4 w1;
        e = issued (base64Encode this d) s
    in 0 \<in> set (allocated e) \<longrightarrow>
         allocated e = [p1, p2] \<and>
         (TypedArray_set (HEAPU8 w2) inputData p1 = Inl RangeError \<or>
          Call ''base64_encode'' [p1, n, p2] \<in> set e) \<and>
         freed e =
           (case TypedArray_set (HEAPU8 w2) inputData p1 of
              Inl err \<Rightarrow> []
            | Inr heap \<Rightarrow>
                (let resultPtr =
                       fst (cwrap_number (wasm_instance this) ''base64_encode'' [p1, n, p2]
                             (w2\<lparr>HEAPU8 := heap\<rparr>))
                 in if resultPtr = 0 then [] else [resultPtr])) @ [p1, p2]) \<and>
   (let n = int (length str);
        (p1, w1) = malloc (wasm_instance this) n (fst s);
        (p2, w2) = malloc (wasm_instance this) 4 w1;
        w3 = stringToUTF8 (wasm_instance this) str p1 (n + 1) w2;
        (resultPtr, w4) = cwrap_number (wasm_instance this) ''base64_decode'' [p1, n, p2] w3;
        e = issued (base64Decode this str) s
    in 0 \<in> set (allocated e) \<longrightarrow>
         allocated e = [p1, p2] \<and>
         Call ''base64_decode'' [p1, n, p2] \<in> set e \<and>
         freed e =
           (if resultPtr = 0 then []
            else (case read_bytes (HEAPU8 w4) resultPtr
                         (getValue_i32 (wasm_instance this) p2 w4) of
                    Inl err \<Rightarrow> []
                  | Inr out \<Rightarrow> [resultPtr])) @ [p1, p2])"
  unfolding sha1_def sha256_def sha384_def sha512_def md5_def
  by (intro conjI randomBytes_null digest_null base64Encode_null base64Decode_null)

theorem null_address_is_used_witness:
  "0 \<in> set (allocated (issued (randomBytes (handle 1) 4) exhausted)) \<and>
   Call ''random_bytes'' [0, 4] \<in> set (issued (randomBytes (handle 1) 4) exhausted) \<and>
   freed (issued (randomBytes (handle 1) 4) exhausted) = [0] \<and>
   0 \<in> set (allocated (issued (sha1 (handle 1) (Bytes [1, 2, 3])) exhausted)) \<and>
   Call ''sha1_digest'' [0, 3, 0] \<in> set (issued (sha1 (handle 1) (Bytes [1, 2, 3])) exhausted) \<and>
   freed (issued (sha1 (handle 1) (Bytes [1, 2, 3])) exhausted) = [0, 0] \<and>
   0 \<in> set (allocated (issued (sha256 (handle 1) (Bytes [1, 2, 3])) exhausted)) \<and>
   Call ''sha256_digest'' [0, 3, 0] \<in> set (issued (sha256 (handle 1) (Bytes [1, 2, 3])) exhausted) \<and>
   freed (issued (sha256 (handle 1) (Bytes [1, 2, 3])) exhausted) = [0, 0] \<and>
   0 \<in> set (allocated (issued (sha384 (handle 1) (Bytes [1, 2, 3])) exhausted)) \<and>
   Call ''sha384_digest'' [0, 3, 0] \<in> set (issued (sha384 (handle 1) (Bytes [1, 2, 3])) exhausted) \<and>
   freed (issued (sha384 (handle 1) (Bytes [1, 2, 3])) exhausted) = [0, 0] \<and>
   0 \<in> set (allocated (issued (sha512 (handle 1) (Bytes [1, 2, 3])) exhausted)) \<and>
   Call ''sha512_digest'' [0, 3, 0] \<in> set (issued (sha512 (handle 1) (Bytes [1, 2, 3])) exhausted) \<and>
   freed (issued (sha512 (handle 1) (Bytes [1, 2, 3])) exhausted) = [0, 0] \<and>
   0 \<in> set (allocated (issued (md5 (handle 1) (Bytes [1, 2, 3])) exhausted)) \<and>
   Call ''md5_digest'' [0, 3, 0] \<in> set (issued (md5 (handle 1) (Bytes [1, 2, 3])) exhausted) \<and>
   freed (issued (md5 (handle 1) (Bytes [1, 2, 3])) exhausted) = [0, 0] \<and>
   0 \<in> set (allocated (issued (base64Encode (handle 1) (Bytes [1, 2, 3])) exhausted)) \<and>
   Call ''base64_encode'' [0, 3, 0]
     \<in> set (issued (base64Encode (handle 1) (Bytes [1, 2, 3])) exhausted) \<and>
   freed (issued (base64Encode (handle 1) (Bytes [1, 2, 3])) exhausted) = [1, 0, 0] \<and>
   0 \<in> set (allocated (issued (base64Decode (handle 1) (js ''AAAA'')) exhausted)) \<and>
   Call ''base64_decode'' [0, 4, 0]
     \<in> set (issued (base64Decode (handle 1) (js ''AAAA'')) exhausted) \<and>
   freed (issued (base64Decode (handle 1) (js ''AAAA'')) exhausted) = [1, 0, 0]"
  using null_address_is_used [of "handle 1" 4 exhausted "Bytes [1, 2, 3]" "js ''AAAA''"]
  by (simp add: sha1_def sha256_def sha384_def sha512_def md5_def digest_exhausted
      randomBytes_exhausted base64Encode_exhausted base64Decode_exhausted)

end
